theory Spec2Isabelle
  imports Main
begin

section \<open>Text: Python strings as lists of code points\<close>

text \<open>
  A Python \<^verbatim>\<open>str\<close> is a sequence of Unicode code points, so a text is a list of
  natural numbers. The interpreter modelled is CPython 3.11 (Unicode 14.0). Whitespace
  (\<^verbatim>\<open>\s\<close>, \<^verbatim>\<open>str.strip\<close>) and the decimal digits (\<^verbatim>\<open>\d\<close>, \<^verbatim>\<open>int\<close>) are the full
  Unicode tables. The case tables (\<^verbatim>\<open>str.lower\<close>, \<^verbatim>\<open>str.upper\<close>,
  \<^verbatim>\<open>re.IGNORECASE\<close>) are written out exactly for the code points below 256
  (ISO 8859-1, which covers Spanish text) and for the three code points that case
  conversion produces from them (U+0178, U+039C, U+03BC); for any other code point the
  case functions are the identity. Theorems whose truth depends on the case tables carry
  the hypothesis that the texts they read are \<open>latin1\<close>.
\<close>

type_synonym ustr = "nat list"

text \<open>
  In the comments a code point outside ASCII is written \<^verbatim>\<open>{U+00ED}\<close>; in the terms
  it is its number (U+00ED is 237, U+00FA is 250, U+00B0 is 176, U+00BA is 186).
\<close>

definition u :: "string \<Rightarrow> ustr" where
  "u s = map of_char s"


definition is_space :: "nat \<Rightarrow> bool" where
  "is_space c = ((9 \<le> c \<and> c \<le> 13) \<or> (28 \<le> c \<and> c \<le> 32) \<or> c = 133 \<or> c = 160
     \<or> c = 5760 \<or> (8192 \<le> c \<and> c \<le> 8202) \<or> c = 8232 \<or> c = 8233 \<or> c = 8239
     \<or> c = 8287 \<or> c = 12288)"

text \<open>
  The decimal digits of Unicode come in runs of ten, each starting at a digit zero;
  \<open>ceros_decimales\<close> lists the zeros beyond ASCII. \<open>decimal_value\<close> is the value of
  a digit and \<open>None\<close> for every other character.
\<close>

definition ceros_decimales :: "nat list" where
  "ceros_decimales =
    [1632, 1776, 1984, 2406, 2534, 2662, 2790, 2918, 3046, 3174, 3302, 3430, 3558, 3664,
     3792, 3872, 4160, 4240, 6112, 6160, 6470, 6608, 6784, 6800, 6992, 7088, 7232, 7248,
     42528, 43216, 43264, 43472, 43504, 43600, 44016, 65296, 66720, 68912, 69734, 69872,
     69942, 70096, 70384, 70736, 70864, 71248, 71360, 71472, 71904, 72016, 72784, 73040,
     73120, 92768, 92864, 93008, 120782, 120792, 120802, 120812, 120822, 123200, 123632,
     125264, 130032]"

definition decimal_value :: "nat \<Rightarrow> nat option" where
  "decimal_value c =
     (if 48 \<le> c \<and> c \<le> 57 then Some (c - 48)
      else if c < 1632 then None
      else map_option (\<lambda>z. c - z) (find (\<lambda>z. z \<le> c \<and> c < z + 10) ceros_decimales))"

definition is_digit :: "nat \<Rightarrow> bool" where
  "is_digit c = (decimal_value c \<noteq> None)"

definition lower1 :: "nat \<Rightarrow> nat" where
  "lower1 c = (if (65 \<le> c \<and> c \<le> 90) \<or> (192 \<le> c \<and> c \<le> 222 \<and> c \<noteq> 215) then c + 32
     else if c = 376 then 255 else if c = 924 then 956 else c)"

definition upper1 :: "nat \<Rightarrow> nat" where
  "upper1 c = (if (97 \<le> c \<and> c \<le> 122) \<or> (224 \<le> c \<and> c \<le> 254 \<and> c \<noteq> 247) then c - 32
     else if c = 255 then 376 else if c = 181 \<or> c = 956 then 924 else c)"

text \<open>\<^verbatim>\<open>str.upper\<close> is not one to one: U+00DF becomes the two letters \<^verbatim>\<open>SS\<close>.\<close>

definition upper_cp :: "nat \<Rightarrow> ustr" where
  "upper_cp c = (if c = 223 then [83, 83] else [upper1 c])"

definition py_lower :: "ustr \<Rightarrow> ustr" where
  "py_lower s = map lower1 s"

definition py_upper :: "ustr \<Rightarrow> ustr" where
  "py_upper s = concat (map upper_cp s)"

definition py_strip :: "ustr \<Rightarrow> ustr" where
  "py_strip s = rev (dropWhile is_space (rev (dropWhile is_space s)))"

text \<open>\<^verbatim>\<open>a in b\<close> on strings: \<open>a\<close> occurs in \<open>b\<close> as a contiguous block.\<close>

fun starts_with :: "ustr \<Rightarrow> ustr \<Rightarrow> bool" where
  "starts_with [] s = True"
| "starts_with (p # ps) [] = False"
| "starts_with (p # ps) (c # cs) = (p = c \<and> starts_with ps cs)"

fun py_in :: "ustr \<Rightarrow> ustr \<Rightarrow> bool" where
  "py_in p [] = (p = [])"
| "py_in p (c # cs) = (starts_with p (c # cs) \<or> py_in p cs)"

section \<open>Regular expressions: the fragment of \<^verbatim>\<open>re\<close> the converter uses\<close>

text \<open>
  The patterns of the source use literals, character sets, \<^verbatim>\<open>\d\<close>, \<^verbatim>\<open>\s\<close>,
  greedy \<^verbatim>\<open>*\<close>, \<^verbatim>\<open>+\<close> and \<^verbatim>\<open>?\<close>, alternation, groups, \<^verbatim>\<open>^\<close> and \<^verbatim>\<open>$\<close>.
  Every starred item is a single character set, which is what \<open>Rep\<close> holds together
  with its minimum count. A literal is the set of one character.
\<close>

datatype cset = Ch nat | Rng nat nat | Dig | Spc | CNot cset

fun in_cset :: "cset \<Rightarrow> nat \<Rightarrow> bool" where
  "in_cset (Ch a) c = (c = a)"
| "in_cset (Rng a b) c = (a \<le> c \<and> c \<le> b)"
| "in_cset Dig c = is_digit c"
| "in_cset Spc c = is_space c"
| "in_cset (CNot k) c = (\<not> in_cset k c)"

definition in_class :: "cset list \<Rightarrow> nat \<Rightarrow> bool" where
  "in_class cs c = list_ex (\<lambda>k. in_cset k c) cs"

text \<open>
  Under \<^verbatim>\<open>re.IGNORECASE\<close> a character is in a set when it, its lower case or its upper
  case is.
\<close>

definition cls_match :: "bool \<Rightarrow> cset list \<Rightarrow> nat \<Rightarrow> bool" where
  "cls_match ci cs c =
     (in_class cs c \<or> (ci \<and> (in_class cs (lower1 c) \<or> in_class cs (upper1 c))))"

datatype regex =
    Cls "cset list"
  | Seq regex regex
  | Alt regex regex
  | Opt regex
  | Rep nat "cset list"
  | Grp nat regex
  | Bol
  | Eol
  | Eps

text \<open>
  A match state is the position reached, the text still to read and the groups captured
  so far (latest first). \<open>rmatch\<close> lists the states in which a pattern can end when
  started in a state, in the order in which the backtracking matcher of \<^verbatim>\<open>re\<close> tries
  them: the left alternative before the right one, one occurrence of an optional item
  before none, more repetitions before fewer. The head of the list is the match
  \<^verbatim>\<open>re\<close> reports.
\<close>

type_synonym mstate = "nat \<times> ustr \<times> (nat \<times> ustr) list"

fun reps :: "(nat \<Rightarrow> bool) \<Rightarrow> nat \<Rightarrow> nat \<Rightarrow> ustr \<Rightarrow> (nat \<times> ustr) list" where
  "reps P n pos [] = (if n = 0 then [(pos, [])] else [])"
| "reps P n pos (c # cs) =
     (if P c then reps P (n - 1) (Suc pos) cs else []) @ (if n = 0 then [(pos, c # cs)] else [])"

fun rmatch :: "bool \<Rightarrow> regex \<Rightarrow> mstate \<Rightarrow> mstate list" where
  "rmatch ci (Cls cs) (pos, s, caps) =
     (case s of [] \<Rightarrow> [] | c # t \<Rightarrow> if cls_match ci cs c then [(Suc pos, t, caps)] else [])"
| "rmatch ci (Seq a b) st = concat (map (rmatch ci b) (rmatch ci a st))"
| "rmatch ci (Alt a b) st = rmatch ci a st @ rmatch ci b st"
| "rmatch ci (Opt a) st = rmatch ci a st @ [st]"
| "rmatch ci (Rep n cs) (pos, s, caps) =
     map (\<lambda>(p, t). (p, t, caps)) (reps (cls_match ci cs) n pos s)"
| "rmatch ci (Grp g a) (pos, s, caps) =
     map (\<lambda>(p, t, cp). (p, t, (g, take (p - pos) s) # cp)) (rmatch ci a (pos, s, caps))"
| "rmatch ci Bol (pos, s, caps) = (if pos = 0 then [(pos, s, caps)] else [])"
| "rmatch ci Eol (pos, s, caps) = (if s = [] \<or> s = [10] then [(pos, s, caps)] else [])"
| "rmatch ci Eps st = [st]"

definition seqs :: "regex list \<Rightarrow> regex" where
  "seqs rs = foldr Seq rs Eps"

definition alts :: "regex \<Rightarrow> regex list \<Rightarrow> regex" where
  "alts r rs = foldl Alt r rs"

definition lit :: "string \<Rightarrow> regex" where
  "lit s = seqs (map (\<lambda>c. Cls [Ch (of_char c)]) s)"

text \<open>\<^verbatim>\<open>re.match\<close> tries the start of the text only, \<^verbatim>\<open>re.search\<close> every position from the left.\<close>

definition re_match :: "bool \<Rightarrow> regex \<Rightarrow> ustr \<Rightarrow> mstate option" where
  "re_match ci r s = (case rmatch ci r (0, s, []) of [] \<Rightarrow> None | m # _ \<Rightarrow> Some m)"

fun search_from :: "bool \<Rightarrow> regex \<Rightarrow> nat \<Rightarrow> ustr \<Rightarrow> mstate option" where
  "search_from ci r pos [] = (case rmatch ci r (pos, [], []) of [] \<Rightarrow> None | m # _ \<Rightarrow> Some m)"
| "search_from ci r pos (c # t) =
     (case rmatch ci r (pos, c # t, []) of [] \<Rightarrow> search_from ci r (Suc pos) t | m # _ \<Rightarrow> Some m)"

definition re_search :: "bool \<Rightarrow> regex \<Rightarrow> ustr \<Rightarrow> mstate option" where
  "re_search ci r s = search_from ci r 0 s"

text \<open>\<^verbatim>\<open>m.group(g)\<close>: \<open>None\<close> when the group took no part in the match.\<close>

definition group :: "mstate \<Rightarrow> nat \<Rightarrow> ustr option" where
  "group m g = map_of (snd (snd m)) g"

text \<open>
  \<^verbatim>\<open>re.sub(pattern, repl, text)\<close> with a constant replacement: from the left, every
  match is replaced and the scan goes on behind it; an empty match puts the replacement
  in front of the next character.
\<close>

function sub_from :: "bool \<Rightarrow> regex \<Rightarrow> ustr \<Rightarrow> nat \<Rightarrow> ustr \<Rightarrow> ustr" where
  "sub_from ci r repl pos [] = (case rmatch ci r (pos, [], []) of [] \<Rightarrow> [] | _ # _ \<Rightarrow> repl)"
| "sub_from ci r repl pos (c # t) =
     (case rmatch ci r (pos, c # t, []) of
        [] \<Rightarrow> c # sub_from ci r repl (Suc pos) t
      | (e, _) # _ \<Rightarrow>
          if e \<le> pos then repl @ c # sub_from ci r repl (Suc pos) t
          else repl @ sub_from ci r repl e (drop (e - pos) (c # t)))"
  by pat_completeness auto
termination
  by (relation "measure (\<lambda>(ci, r, repl, pos, s). length s)") auto

definition re_sub :: "bool \<Rightarrow> regex \<Rightarrow> ustr \<Rightarrow> ustr \<Rightarrow> ustr" where
  "re_sub ci r repl s = sub_from ci r repl 0 s"

section \<open>Cell values and rows\<close>

text \<open>
  A cell of the data frame is what \<^verbatim>\<open>read_excel\<close> delivers for a cell of the sheet: a
  text, an integer, a floating-point number, a truth value, a date or time, or one of the
  missing values that \<^verbatim>\<open>pd.isna\<close> recognises (\<^verbatim>\<open>nan\<close>, \<^verbatim>\<open>None\<close> and the
  missing date \<^verbatim>\<open>NaT\<close>). The converter
  looks at a cell only through \<^verbatim>\<open>str\<close>, \<^verbatim>\<open>int\<close>, its truth value and
  \<^verbatim>\<open>pd.isna\<close>. A finite floating-point number is therefore given by its printed form
  and its integer part (nothing relates the two, so what holds for every cell holds for
  every number); the infinities are given by their sign; a date or time is given by its
  printed form. A row is a \<^verbatim>\<open>Series\<close> indexed by column name; a column the sheet does not
  have is \<open>None\<close> at the level of \<open>option\<close>.
\<close>

datatype cell =
    NaN
  | NoneV
  | Str ustr
  | IntV int
  | FloatV ustr int
  | InfV bool
  | BoolV bool
  | FechaV ustr
  | NaT

datatype py_error = ValueError | TypeError | OverflowError | AttributeError

record fila =
  clave_manual :: "cell option"
  norma :: "cell option"
  norma_tipo :: "cell option"
  norma_numero :: "cell option"
  norma_idnorma :: "cell option"
  nombreparte :: "cell option"
  numero_articulo :: "cell option"

fun isna :: "cell \<Rightarrow> bool" where
  "isna NaN = True"
| "isna NoneV = True"
| "isna (Str s) = False"
| "isna (IntV i) = False"
| "isna (FloatV s i) = False"
| "isna (InfV neg) = False"
| "isna (BoolV b) = False"
| "isna (FechaV s) = False"
| "isna NaT = True"

text \<open>
  Truth value of a cell in a condition: \<^verbatim>\<open>nan\<close> and the infinities are true,
  \<^verbatim>\<open>None\<close>, \<^verbatim>\<open>''\<close>, \<^verbatim>\<open>0\<close> and the two floating-point zeros are false, a date is
  true.
\<close>

fun truthy :: "cell \<Rightarrow> bool" where
  "truthy NaN = True"
| "truthy NoneV = False"
| "truthy (Str s) = (s \<noteq> [])"
| "truthy (IntV i) = (i \<noteq> 0)"
| "truthy (FloatV s i) = (s \<noteq> u ''0.0'' \<and> s \<noteq> u ''-0.0'')"
| "truthy (InfV neg) = True"
| "truthy (BoolV b) = b"
| "truthy (FechaV s) = True"
| "truthy NaT = True"

fun dec_digits :: "nat \<Rightarrow> ustr" where
  "dec_digits n = (if n < 10 then [48 + n] else dec_digits (n div 10) @ [48 + n mod 10])"

declare dec_digits.simps [simp del]

text \<open>
  \<^verbatim>\<open>str(x)\<close>. For an integer of more than 4300 digits \<^verbatim>\<open>str\<close> raises
  \<^verbatim>\<open>ValueError\<close>; a number of a sheet has at most 309 digits, and the theorems that
  depend on it carry the hypothesis \<open>en_rango\<close> below.
\<close>

fun py_str :: "cell \<Rightarrow> ustr" where
  "py_str NaN = u ''nan''"
| "py_str NoneV = u ''None''"
| "py_str (Str s) = s"
| "py_str (IntV i) = (if i < 0 then 45 # dec_digits (nat (- i)) else dec_digits (nat i))"
| "py_str (FloatV s i) = s"
| "py_str (InfV neg) = (if neg then u ''-inf'' else u ''inf'')"
| "py_str (BoolV b) = (if b then u ''True'' else u ''False'')"
| "py_str (FechaV s) = s"
| "py_str NaT = u ''NaT''"

text \<open>\<^verbatim>\<open>row.get(name, '')\<close>\<close>

definition get_or_empty :: "cell option \<Rightarrow> cell" where
  "get_or_empty c = (case c of None \<Rightarrow> Str [] | Some v \<Rightarrow> v)"

text \<open>A group of a match as a value: a group that took no part is \<^verbatim>\<open>None\<close>.\<close>

definition group_cell :: "ustr option \<Rightarrow> cell" where
  "group_cell g = (case g of None \<Rightarrow> NoneV | Some s \<Rightarrow> Str s)"

text \<open>
  \<^verbatim>\<open>int(x)\<close> on a text. Whitespace around the number is dropped: beyond U+007E every
  Unicode space, below it only the six characters of C's \<^verbatim>\<open>isspace\<close>. Then come an
  optional sign and decimal digits of any script, where single underscores may separate
  digits. A text of another form, and a number of more than 4300 digits, raises
  \<^verbatim>\<open>ValueError\<close>.
\<close>

definition int_space :: "nat \<Rightarrow> bool" where
  "int_space c = ((9 \<le> c \<and> c \<le> 13) \<or> c = 32 \<or> (127 \<le> c \<and> is_space c))"

fun int_body :: "nat \<Rightarrow> ustr \<Rightarrow> nat option" where
  "int_body acc [] = Some acc"
| "int_body acc [c] =
     (case decimal_value c of Some v \<Rightarrow> Some (10 * acc + v) | None \<Rightarrow> None)"
| "int_body acc (c # d # ds) =
     (case decimal_value c of
        Some v \<Rightarrow> int_body (10 * acc + v) (d # ds)
      | None \<Rightarrow>
          if c = 95
          then (case decimal_value d of
                  Some w \<Rightarrow> int_body (10 * acc + w) ds
                | None \<Rightarrow> None)
          else None)"

definition max_str_digits :: nat where
  "max_str_digits = 4300"

definition py_int_str :: "ustr \<Rightarrow> int option" where
  "py_int_str s =
     (let t = rev (dropWhile int_space (rev (dropWhile int_space s)));
          neg = (case t of [] \<Rightarrow> False | c # _ \<Rightarrow> c = 45);
          b = (case t of [] \<Rightarrow> [] | c # cs \<Rightarrow> if c = 45 \<or> c = 43 then cs else t)
      in case b of
           [] \<Rightarrow> None
         | c # cs \<Rightarrow>
             (case decimal_value c of
                None \<Rightarrow> None
              | Some v \<Rightarrow>
                  if max_str_digits < length (filter is_digit b) then None
                  else map_option (\<lambda>n. if neg then - int n else int n) (int_body v cs)))"

text \<open>
  \<^verbatim>\<open>int(x)\<close> on a cell: a finite number gives its integer part, \<^verbatim>\<open>nan\<close> and
  \<^verbatim>\<open>NaT\<close> raise \<^verbatim>\<open>ValueError\<close>, an infinity \<^verbatim>\<open>OverflowError\<close>, \<^verbatim>\<open>None\<close> and
  a date \<^verbatim>\<open>TypeError\<close>. The converter calls \<^verbatim>\<open>int\<close> only on a cell that is true
  and not a missing value.
\<close>

fun py_int :: "cell \<Rightarrow> py_error + int" where
  "py_int NaN = Inl ValueError"
| "py_int NoneV = Inl TypeError"
| "py_int (IntV i) = Inr i"
| "py_int (Str s) = (case py_int_str s of None \<Rightarrow> Inl ValueError | Some i \<Rightarrow> Inr i)"
| "py_int (FloatV s i) = Inr i"
| "py_int (InfV neg) = Inl OverflowError"
| "py_int (BoolV b) = Inr (if b then 1 else 0)"
| "py_int (FechaV s) = Inl TypeError"
| "py_int NaT = Inl ValueError"


section \<open>The converter\<close>

subsection \<open>\<^verbatim>\<open>CODIGOS_ESPECIALES\<close> and \<^verbatim>\<open>limpiar_numero\<close>\<close>

text \<open>The dictionary is iterated in the order of its declaration.\<close>

definition CODIGOS_ESPECIALES :: "(ustr \<times> ustr) list" where
  "CODIGOS_ESPECIALES =
    [(u ''codigo civil dfl 1 2000 articulo 2 con doble articulado'', u ''CCCH''),
     (u ''codigo penal'', u ''CPCH''),
     (u ''codigo de comercio'', u ''CCOM''),
     (u ''codigo del trabajo'', u ''CTCH''),
     (u ''codigo tributario'', u ''CTRIB''),
     (u ''codigo sanitario'', u ''CSAN''),
     (u ''codigo organico de tribunales'', u ''COT''),
     (u ''codigo procesal penal'', u ''CPP''),
     (u ''codigo de procedimiento civil'', u ''CPC''),
     (u ''constitucion politica'', u ''CRCH''),
     (u ''constitucion'', u ''CRCH''),
     (u ''ley de abandono de familia y pensiones dfl 1 2000 articulo 7 con doble articulado'', u ''LAFP''),
     (u ''ley de cambio de nombres dfl 1 2000 articulo 4 con doble articulado'', u ''LCN''),
     (u ''ley de impuesto a la herencia y donaciones dfl 1 2000 articulo 8 con doble articulado'', u ''LIHD''),
     (u ''ley de menores dfl 1 2000 articulo 6 con doble articulado'', u ''LM''),
     (u ''ley del registro civil dfl 1 2000 articulo 3 con doble articulado'', u ''LRC'')]"

text \<open>\<^verbatim>\<open>[^\d]\<close>\<close>

definition pat_no_digito :: regex where
  "pat_no_digito = Cls [CNot Dig]"

definition limpiar_numero :: "cell \<Rightarrow> ustr" where
  "limpiar_numero texto =
     (if isna texto then [] else re_sub False pat_no_digito [] (py_str texto))"

subsection \<open>\<^verbatim>\<open>generar_clave\<close>\<close>

text \<open>\<^verbatim>\<open>dfl\s*(\d+)\s*(\d{4})?\<close>\<close>

definition pat_dfl :: regex where
  "pat_dfl = seqs [lit ''dfl'', Rep 0 [Spc], Grp 1 (Rep 1 [Dig]), Rep 0 [Spc],
     Opt (Grp 2 (seqs [Cls [Dig], Cls [Dig], Cls [Dig], Cls [Dig]]))]"

text \<open>\<^verbatim>\<open>(?:decreto\s*ley|dl)\s*(\d+)\s*(\d{4})?\<close>\<close>

definition pat_dl :: regex where
  "pat_dl = seqs [Alt (seqs [lit ''decreto'', Rep 0 [Spc], lit ''ley'']) (lit ''dl''),
     Rep 0 [Spc], Grp 1 (Rep 1 [Dig]), Rep 0 [Spc],
     Opt (Grp 2 (seqs [Cls [Dig], Cls [Dig], Cls [Dig], Cls [Dig]]))]"

text \<open>\<^verbatim>\<open>ley\s*(?:n[u{U+00FA}]m\.?\s*)?(\d+[\.\d]*)\<close>\<close>

definition pat_ley :: regex where
  "pat_ley = seqs [lit ''ley'', Rep 0 [Spc],
     Opt (seqs [lit ''n'', Cls [Ch 117, Ch 250], lit ''m'', Opt (Cls [Ch 46]), Rep 0 [Spc]]),
     Grp 1 (seqs [Rep 1 [Dig], Rep 0 [Ch 46, Dig]])]"

text \<open>\<^verbatim>\<open>decreto\s*supremo\s*(?:n[{U+00B0}{U+00BA}]?\s*)?(\d+)\<close>\<close>

definition pat_ds :: regex where
  "pat_ds = seqs [lit ''decreto'', Rep 0 [Spc], lit ''supremo'', Rep 0 [Spc],
     Opt (seqs [lit ''n'', Opt (Cls [Ch 176, Ch 186]), Rep 0 [Spc]]),
     Grp 1 (Rep 1 [Dig])]"

text \<open>A group inside an f-string: \<^verbatim>\<open>None\<close> prints as \<^verbatim>\<open>None\<close>.\<close>

definition fmt :: "ustr option \<Rightarrow> ustr" where
  "fmt g = py_str (group_cell g)"

text \<open>\<^verbatim>\<open>match.group(2) or ''\<close>\<close>

definition or_empty :: "ustr option \<Rightarrow> ustr" where
  "or_empty g = (case g of None \<Rightarrow> [] | Some s \<Rightarrow> s)"

text \<open>
  Each block of the function is a step that either returns a key (\<open>Some\<close>) or lets
  control fall to the next block (\<open>None\<close>).
\<close>

definition paso_manual :: "fila \<Rightarrow> ustr option" where
  "paso_manual row =
     (case clave_manual row of
        None \<Rightarrow> None
      | Some c \<Rightarrow>
          if \<not> isna c
          then (let m = py_strip (py_str c) in if m \<noteq> [] then Some (py_upper m) else None)
          else None)"

fun paso_especial :: "(ustr \<times> ustr) list \<Rightarrow> ustr \<Rightarrow> ustr \<Rightarrow> ustr option" where
  "paso_especial [] nrm tipo = None"
| "paso_especial ((patron, clave) # rest) nrm tipo =
     (if py_in patron nrm \<or> py_in patron tipo then Some clave else paso_especial rest nrm tipo)"

definition con_anio :: "string \<Rightarrow> mstate \<Rightarrow> ustr" where
  "con_anio pre m =
     (let num = group m 1; year = or_empty (group m 2)
      in if year \<noteq> [] then u pre @ fmt num @ year else u pre @ fmt num)"

definition paso_dfl :: "ustr \<Rightarrow> ustr \<Rightarrow> ustr option" where
  "paso_dfl nrm tipo =
     (if py_in (u ''decreto con fuerza de ley'') tipo \<or> py_in (u ''dfl'') nrm
      then map_option (con_anio ''DFL'') (re_search True pat_dfl nrm)
      else None)"

definition paso_dl :: "ustr \<Rightarrow> ustr \<Rightarrow> ustr option" where
  "paso_dl nrm tipo =
     (if py_in (u ''decreto ley'') tipo \<or> py_in (u ''decreto ley'') nrm
      then map_option (con_anio ''DL'') (re_search True pat_dl nrm)
      else None)"

definition paso_ley :: "ustr \<Rightarrow> ustr \<Rightarrow> cell \<Rightarrow> ustr option" where
  "paso_ley nrm tipo numero =
     (if py_in (u ''ley'') tipo \<or> py_in (u ''ley'') nrm
      then (case re_search True pat_ley nrm of
              Some m \<Rightarrow> Some (u ''L'' @ limpiar_numero (group_cell (group m 1)))
            | None \<Rightarrow>
                if truthy numero \<and> \<not> isna numero
                then (let num = limpiar_numero numero
                      in if num \<noteq> [] then Some (u ''L'' @ num) else None)
                else None)
      else None)"

definition paso_ds :: "ustr \<Rightarrow> ustr \<Rightarrow> ustr option" where
  "paso_ds nrm tipo =
     (if py_in (u ''decreto supremo'') tipo \<or> py_in (u ''decreto supremo'') nrm
      then map_option (\<lambda>m. u ''DS'' @ fmt (group m 1)) (re_search True pat_ds nrm)
      else None)"

definition paso_idnorma :: "cell \<Rightarrow> py_error + ustr" where
  "paso_idnorma idnorma =
     (if truthy idnorma \<and> \<not> isna idnorma
      then (case py_int idnorma of
              Inl e \<Rightarrow> Inl e
            | Inr i \<Rightarrow> Inr (u ''N'' @ py_str (IntV i)))
      else Inr (u ''UNKNOWN''))"

definition generar_clave :: "fila \<Rightarrow> py_error + ustr" where
  "generar_clave row =
     (case paso_manual row of
        Some k \<Rightarrow> Inr k
      | None \<Rightarrow>
         (let nrm = py_strip (py_lower (py_str (get_or_empty (norma row))));
              tipo = py_strip (py_lower (py_str (get_or_empty (norma_tipo row))));
              numero = get_or_empty (norma_numero row)
          in (case paso_especial CODIGOS_ESPECIALES nrm tipo of
               Some k \<Rightarrow> Inr k
             | None \<Rightarrow>
          (case paso_dfl nrm tipo of
               Some k \<Rightarrow> Inr k
             | None \<Rightarrow>
          (case paso_dl nrm tipo of
               Some k \<Rightarrow> Inr k
             | None \<Rightarrow>
          (case paso_ley nrm tipo numero of
               Some k \<Rightarrow> Inr k
             | None \<Rightarrow>
          (case paso_ds nrm tipo of
               Some k \<Rightarrow> Inr k
             | None \<Rightarrow> paso_idnorma (get_or_empty (norma_idnorma row)))))))))"

subsection \<open>\<^verbatim>\<open>normalizar_nombreparte\<close>\<close>

text \<open>\<^verbatim>\<open>art[{U+00ED}i]culo\<close>\<close>

definition pat_articulo :: regex where
  "pat_articulo = seqs [lit ''art'', Cls [Ch 237, Ch 105], lit ''culo'']"

text \<open>\<^verbatim>\<open>^art\.?\s*\<close>\<close>

definition pat_art_prefijo :: regex where
  "pat_art_prefijo = seqs [Bol, lit ''art'', Opt (Cls [Ch 46]), Rep 0 [Spc]]"

text \<open>\<^verbatim>\<open>\s+\<close>\<close>

definition pat_espacios :: regex where
  "pat_espacios = Rep 1 [Spc]"

definition normalizar_nombreparte :: "cell \<Rightarrow> ustr" where
  "normalizar_nombreparte texto =
     (if isna texto then []
      else let t0 = py_strip (py_lower (py_str texto));
               t1 = re_sub False pat_articulo (u ''articulo'') t0;
               t2 = re_sub False pat_art_prefijo (u ''articulo '') t1;
               t3 = re_sub False pat_espacios (u '' '') t2
           in py_strip t3)"

subsection \<open>\<^verbatim>\<open>extraer_numero_articulo\<close>\<close>

text \<open>\<^verbatim>\<open>(?:art[{U+00ED}i]culo|art\.?)\s*(\d+(?:\s*(?:bis|ter|quater|quinquies|sexies))?)\<close>\<close>

definition pat_num_articulo :: regex where
  "pat_num_articulo =
     seqs [Alt pat_articulo (seqs [lit ''art'', Opt (Cls [Ch 46])]), Rep 0 [Spc],
       Grp 1 (seqs [Rep 1 [Dig],
         Opt (seqs [Rep 0 [Spc],
           alts (lit ''bis'') [lit ''ter'', lit ''quater'', lit ''quinquies'', lit ''sexies'']])])]"

text \<open>\<^verbatim>\<open>^(\d+)$\<close>\<close>

definition pat_solo_digitos :: regex where
  "pat_solo_digitos = seqs [Bol, Grp 1 (Rep 1 [Dig]), Eol]"

text \<open>
  A string method called on a group: on \<^verbatim>\<open>None\<close> it raises \<^verbatim>\<open>AttributeError\<close>.
  In both patterns of the extractor group 1 takes part in every match, so neither that
  branch nor the \<^verbatim>\<open>None\<close> of a returned group is ever reached.
\<close>

definition on_group :: "(ustr \<Rightarrow> ustr) \<Rightarrow> ustr option \<Rightarrow> py_error + ustr" where
  "on_group f g = (case g of None \<Rightarrow> Inl AttributeError | Some s \<Rightarrow> Inr (f s))"

definition extraer_numero_articulo :: "cell \<Rightarrow> py_error + ustr" where
  "extraer_numero_articulo texto =
     (if isna texto then Inr []
      else let t = py_strip (py_lower (py_str texto))
           in case re_search False pat_num_articulo t of
                Some m \<Rightarrow> on_group py_strip (group m 1)
              | None \<Rightarrow>
                  (case re_search False pat_solo_digitos (py_strip t) of
                     Some m \<Rightarrow> Inr (fmt (group m 1))
                   | None \<Rightarrow> Inr []))"

subsection \<open>\<^verbatim>\<open>separar_clave_y_articulo\<close>\<close>

text \<open>\<^verbatim>\<open>^([A-Z0-9\.]+)\.ART(\d+[A-Z]*)$\<close>\<close>

definition pat_clave_art :: regex where
  "pat_clave_art =
     seqs [Bol, Grp 1 (Rep 1 [Rng 65 90, Rng 48 57, Ch 46]), lit ''.ART'',
       Grp 2 (seqs [Rep 1 [Dig], Rep 0 [Rng 65 90]]), Eol]"

definition separar_clave_y_articulo :: "cell \<Rightarrow> py_error + (ustr option \<times> ustr option)" where
  "separar_clave_y_articulo clave_str =
     (if isna clave_str then Inr (None, None)
      else let k = py_upper (py_strip (py_str clave_str))
           in case re_match True pat_clave_art k of
                Some m \<Rightarrow>
                  (case on_group py_upper (group m 1) of
                     Inl e \<Rightarrow> Inl e
                   | Inr base \<Rightarrow> Inr (Some base, group m 2))
              | None \<Rightarrow> Inr (Some k, None))"

subsection \<open>The per-row part of \<^verbatim>\<open>convertir_excel_a_sqlite\<close>\<close>

text \<open>
  The conversion computes \<^verbatim>\<open>clave\<close> with \<open>generar_clave\<close>, replaces it by the base
  that \<open>separar_clave_y_articulo\<close> returns, and takes \<^verbatim>\<open>numero_articulo\<close> from the
  article of that split: as the whole column when the sheet has none, through
  \<^verbatim>\<open>fillna\<close> otherwise. \<^verbatim>\<open>nombreparte_normalizado\<close> exists when the sheet has
  \<^verbatim>\<open>nombreparte\<close>. No other function is called on a row.
\<close>

text \<open>\<^verbatim>\<open>Series.fillna\<close>, one position: a missing value is replaced unless the filler is missing too.\<close>

definition fillna :: "cell \<Rightarrow> cell \<Rightarrow> cell" where
  "fillna old v = (if isna old \<and> \<not> isna v then v else old)"

record salida =
  clave :: "ustr option"
  numero_articulo_nuevo :: cell
  nombreparte_normalizado :: "ustr option"

definition convertir_fila :: "fila \<Rightarrow> py_error + salida" where
  "convertir_fila row =
     (case generar_clave row of
        Inl e \<Rightarrow> Inl e
      | Inr k \<Rightarrow>
          (case separar_clave_y_articulo (Str k) of
             Inl e \<Rightarrow> Inl e
           | Inr (base, articulo) \<Rightarrow>
               Inr \<lparr>clave = base,
                    numero_articulo_nuevo =
                      (case numero_articulo row of
                         None \<Rightarrow> group_cell articulo
                       | Some old \<Rightarrow> fillna old (group_cell articulo)),
                    nombreparte_normalizado =
                      map_option normalizar_nombreparte (nombreparte row)\<rparr>))"

text \<open>The row of a sheet that has none of the columns.\<close>

definition fila_vacia :: fila where
  "fila_vacia = \<lparr>clave_manual = None, norma = None, norma_tipo = None, norma_numero = None,
     norma_idnorma = None, nombreparte = None, numero_articulo = None\<rparr>"


subsection \<open>The order of the steps\<close>








subsection \<open>The composite key, in the words of the specification\<close>





subsection \<open>Auxiliary notions for reasoning about the matcher\<close>






section \<open>Evaluation\<close>

lemmas text_defs = u_def py_lower_def py_strip_def lower1_def upper1_def upper_cp_def
  py_upper_def is_space_def is_digit_def decimal_value_def get_or_empty_def group_cell_def fmt_def
  or_empty_def on_group_def Let_def

lemmas re_defs = in_class_def cls_match_def seqs_def alts_def lit_def re_match_def
  re_search_def group_def re_sub_def

lemmas pat_defs = pat_no_digito_def pat_dfl_def pat_dl_def pat_ley_def pat_ds_def
  pat_articulo_def pat_art_prefijo_def pat_espacios_def pat_num_articulo_def
  pat_solo_digitos_def pat_clave_art_def

lemmas clave_defs = generar_clave_def paso_manual_def CODIGOS_ESPECIALES_def paso_dfl_def
  paso_dl_def paso_ley_def paso_ds_def paso_idnorma_def con_anio_def limpiar_numero_def

section \<open>Facts about the character tables\<close>


lemma is_digit_ascii: "48 \<le> c \<and> c \<le> 57 \<Longrightarrow> is_digit c"
  by (simp add: is_digit_def decimal_value_def)







section \<open>Facts about the matcher\<close>





























section \<open>Facts about case conversion and trimming\<close>













section \<open>Party-name normalisation\<close>

text \<open>
  C1. The claim is that the normaliser sends the spellings \<^verbatim>\<open>Art. 5\<close>,
  \<^verbatim>\<open>art{U+00ED}culo   5\<close> and \<^verbatim>\<open>Articulo 5\<close> to one string. The code does not: the
  prefix pattern \<^verbatim>\<open>^art\.?\s*\<close> also matches the first three letters of the word
  \<^verbatim>\<open>articulo\<close> that the first substitution has just produced, so the full word is
  expanded a second time. The abbreviated spelling gives \<^verbatim>\<open>articulo 5\<close>, the two
  full spellings give \<^verbatim>\<open>articulo iculo 5\<close>.
\<close>

theorem normalizar_nombreparte_variantes:
  "normalizar_nombreparte (Str (u ''Art. 5'')) = u ''articulo 5'' \<and>
   normalizar_nombreparte (Str (u ''art'' @ [237] @ u ''culo   5'')) = u ''articulo iculo 5'' \<and>
   normalizar_nombreparte (Str (u ''Articulo 5'')) = u ''articulo iculo 5''"
  by (simp add: normalizar_nombreparte_def text_defs re_defs pat_defs)

section \<open>Article extraction\<close>

text \<open>
  C10. The marker of the article pattern is not anchored at a word boundary: in
  \<^verbatim>\<open>part 31\<close> the search finds \<^verbatim>\<open>art\<close> inside \<^verbatim>\<open>part\<close> and the extractor returns
  \<^verbatim>\<open>31\<close>, not the empty string.
\<close>

theorem extraer_numero_articulo_sin_limite_de_palabra:
  "extraer_numero_articulo (Str (u ''part 31'')) = Inr (u ''31'')"
  by (simp add: extraer_numero_articulo_def text_defs re_defs pat_defs)

section \<open>Key resolution\<close>





lemma generar_clave_nombreparte:
  "generar_clave (row\<lparr>nombreparte := np\<rparr>) = generar_clave row"
  by (simp add: generar_clave_def paso_manual_def Let_def cong: option.case_cong)

text \<open>
  C5. A manual key that is present, not a missing value and not blank after trimming is
  returned trimmed and in upper case, whatever the other fields of the row hold.
\<close>

theorem generar_clave_manual:
  "clave_manual row = Some c \<Longrightarrow> \<not> isna c \<Longrightarrow> py_strip (py_str c) \<noteq> [] \<Longrightarrow>
   generar_clave row = Inr (py_upper (py_strip (py_str c)))"
  by (simp add: generar_clave_def paso_manual_def)

text \<open>
  The manual key \<^verbatim>\<open> ctrib.Art31 \<close> wins over a description that names a special code,
  a norm number and an identifier that is no number.
\<close>

theorem generar_clave_manual_witness:
  "clave_manual (fila_vacia\<lparr>clave_manual := Some (Str (u '' ctrib.Art31 '')),
       norma := Some (Str (u ''Codigo Penal'')), norma_tipo := Some (Str (u ''Ley'')),
       norma_numero := Some (IntV 5), norma_idnorma := Some (Str (u ''abc''))\<rparr>)
     = Some (Str (u '' ctrib.Art31 '')) \<and>
   \<not> isna (Str (u '' ctrib.Art31 '')) \<and>
   py_strip (py_str (Str (u '' ctrib.Art31 ''))) \<noteq> [] \<and>
   generar_clave (fila_vacia\<lparr>clave_manual := Some (Str (u '' ctrib.Art31 '')),
       norma := Some (Str (u ''Codigo Penal'')), norma_tipo := Some (Str (u ''Ley'')),
       norma_numero := Some (IntV 5), norma_idnorma := Some (Str (u ''abc''))\<rparr>)
     = Inr (u ''CTRIB.ART31'')"
proof -
  let ?row = "fila_vacia\<lparr>clave_manual := Some (Str (u '' ctrib.Art31 '')),
       norma := Some (Str (u ''Codigo Penal'')), norma_tipo := Some (Str (u ''Ley'')),
       norma_numero := Some (IntV 5), norma_idnorma := Some (Str (u ''abc''))\<rparr>"
  have a: "clave_manual ?row = Some (Str (u '' ctrib.Art31 ''))"
    by (simp add: fila_vacia_def)
  have b: "\<not> isna (Str (u '' ctrib.Art31 ''))" by simp
  have c: "py_strip (py_str (Str (u '' ctrib.Art31 ''))) \<noteq> []"
    by (simp add: text_defs)
  have d: "py_upper (py_strip (py_str (Str (u '' ctrib.Art31 '')))) = u ''CTRIB.ART31''"
    by (simp add: text_defs)
  show ?thesis using generar_clave_manual [OF a b c] a b c d by simp
qed

text \<open>
  C3, as claimed: type \<^verbatim>\<open>Ley\<close>, description \<^verbatim>\<open>Ley N{U+00B0} 19.496\<close>, no manual key, resolves
  to \<^verbatim>\<open>L19496\<close>. On the code the pattern of the \<^verbatim>\<open>ley\<close> step does not match this
  description (between \<^verbatim>\<open>ley\<close> and the number it admits only \<^verbatim>\<open>num\<close> or \<^verbatim>\<open>n{U+00FA}m\<close>),
  and with no norm number and no identifier the row resolves to \<^verbatim>\<open>UNKNOWN\<close>.
\<close>

theorem generar_clave_ley_n_grado_contraejemplo:
  "generar_clave (fila_vacia\<lparr>norma_tipo := Some (Str (u ''Ley'')),
       norma := Some (Str (u ''Ley N'' @ [176] @ u '' 19.496''))\<rparr>) = Inr (u ''UNKNOWN'')"
  by (simp add: fila_vacia_def clave_defs text_defs re_defs pat_defs)

text \<open>
  C3, as amended. For a row with no manual key and type \<^verbatim>\<open>Ley\<close>, the descriptions
  \<^verbatim>\<open>Ley 19.496\<close> and \<^verbatim>\<open>Ley N{U+00FA}m. 19.496\<close> resolve to \<^verbatim>\<open>L19496\<close>, whatever the
  other fields: the pattern captures \<^verbatim>\<open>19.496\<close> and the dot is stripped. The
  description \<^verbatim>\<open>Ley N{U+00B0} 19.496\<close> is not matched by the pattern; it resolves to
  \<^verbatim>\<open>L19496\<close> through the norm number \<^verbatim>\<open>19.496\<close> of the row.
\<close>

theorem generar_clave_ley_19496:
  "generar_clave (r\<lparr>clave_manual := None, norma_tipo := Some (Str (u ''Ley'')),
       norma := Some (Str (u ''Ley 19.496''))\<rparr>) = Inr (u ''L19496'') \<and>
   generar_clave (r\<lparr>clave_manual := None, norma_tipo := Some (Str (u ''Ley'')),
       norma := Some (Str (u ''Ley N'' @ [250] @ u ''m. 19.496''))\<rparr>) = Inr (u ''L19496'') \<and>
   re_search True pat_ley (u ''ley n'' @ [176] @ u '' 19.496'') = None \<and>
   generar_clave (r\<lparr>clave_manual := None, norma_tipo := Some (Str (u ''Ley'')),
       norma := Some (Str (u ''Ley N'' @ [176] @ u '' 19.496'')),
       norma_numero := Some (Str (u ''19.496''))\<rparr>) = Inr (u ''L19496'')"
  by (simp add: clave_defs text_defs re_defs pat_defs)




lemma generar_clave_ds5:
  "generar_clave (r\<lparr>clave_manual := None,
       norma_tipo := Some (Str (u ''decreto con fuerza de ley'')),
       norma := Some (Str (u ''decreto supremo n'' @ [176] @ u '' 5'')),
       norma_numero := None\<rparr>) = Inr (u ''DS5'')"
  by (simp add: clave_defs text_defs re_defs pat_defs)



section \<open>Key decomposition\<close>










text \<open>
  C7, as claimed: a null or empty raw key gives the pair of nulls. On the code the guard
  is \<^verbatim>\<open>pd.isna\<close>, which the empty string does not satisfy: the empty string passes
  through as the base key, with no article.
\<close>

theorem separar_clave_vacia:
  "separar_clave_y_articulo (Str []) = Inr (Some [], None)"
  by (simp add: separar_clave_y_articulo_def text_defs re_defs pat_defs)

text \<open>C7, as amended. For every raw key that is a missing value, the result is the pair of nulls.\<close>

theorem separar_clave_nula:
  "isna c \<Longrightarrow> separar_clave_y_articulo c = Inr (None, None)"
  by (simp add: separar_clave_y_articulo_def)

theorem separar_clave_nula_witness:
  "isna NaN \<and> separar_clave_y_articulo NaN = Inr (None, None) \<and>
   isna NoneV \<and> separar_clave_y_articulo NoneV = Inr (None, None)"
  using separar_clave_nula [of NaN] separar_clave_nula [of NoneV] by simp

section \<open>The article number of a converted row\<close>

text \<open>
  C2, as claimed: a row without article number gets it from the article extractor
  applied to the party description. On the code the extractor is never called: for a
  row of the penal code whose description is \<^verbatim>\<open>Art{U+00ED}culo 41 bis\<close> the extractor
  would give \<^verbatim>\<open>41 bis\<close>, and the converted row has no article number.
\<close>

theorem convertir_fila_no_usa_extractor:
  "map_sum id numero_articulo_nuevo
     (convertir_fila (fila_vacia\<lparr>norma := Some (Str (u ''Codigo Penal'')),
        nombreparte := Some (Str (u ''Art'' @ [237] @ u ''culo 41 bis''))\<rparr>)) = Inr NoneV \<and>
   extraer_numero_articulo (Str (u ''Art'' @ [237] @ u ''culo 41 bis'')) = Inr (u ''41 bis'')"
  by (simp add: convertir_fila_def separar_clave_y_articulo_def extraer_numero_articulo_def
      fila_vacia_def clave_defs text_defs re_defs pat_defs)

text \<open>
  C2, as amended. The article number of a converted row comes from the split of the
  resolved key and from nothing else: when the sheet has no article column it is the
  article of the split; when the row's article number is a missing value it is filled
  with the article of the split, if there is one; an article number that is present is
  kept. The party description has no influence.
\<close>

theorem convertir_fila_numero_articulo:
  assumes "generar_clave row = Inr k"
    and "separar_clave_y_articulo (Str k) = Inr (base, art)"
  shows "\<exists>d. convertir_fila (row\<lparr>nombreparte := np\<rparr>) = Inr d \<and> clave d = base \<and>
     numero_articulo_nuevo d =
       (case numero_articulo row of
          None \<Rightarrow> group_cell art
        | Some old \<Rightarrow> if isna old \<and> art \<noteq> None then group_cell art else old)"
  using assms
  by (auto simp add: convertir_fila_def generar_clave_nombreparte fillna_def group_cell_def
      split: option.splits)

theorem convertir_fila_numero_articulo_witness:
  "generar_clave (fila_vacia\<lparr>clave_manual := Some (Str (u ''CTRIB.Art31'')),
       numero_articulo := Some NaN\<rparr>) = Inr (u ''CTRIB.ART31'') \<and>
   separar_clave_y_articulo (Str (u ''CTRIB.ART31'')) = Inr (Some (u ''CTRIB''), Some (u ''31'')) \<and>
   (\<exists>d. convertir_fila (fila_vacia\<lparr>clave_manual := Some (Str (u ''CTRIB.Art31'')),
       numero_articulo := Some NaN,
       nombreparte := Some (Str (u ''Art'' @ [237] @ u ''culo 41 bis''))\<rparr>) = Inr d \<and>
     clave d = Some (u ''CTRIB'') \<and> numero_articulo_nuevo d = Str (u ''31''))"
proof -
  have a: "generar_clave (fila_vacia\<lparr>clave_manual := Some (Str (u ''CTRIB.Art31'')),
       numero_articulo := Some NaN\<rparr>) = Inr (u ''CTRIB.ART31'')"
    by (simp add: fila_vacia_def clave_defs text_defs)
  have b: "separar_clave_y_articulo (Str (u ''CTRIB.ART31'')) =
      Inr (Some (u ''CTRIB''), Some (u ''31''))"
    by (simp add: separar_clave_y_articulo_def text_defs re_defs pat_defs)
  show ?thesis
    using convertir_fila_numero_articulo [OF a b,
        of "Some (Str (u ''Art'' @ [237] @ u ''culo 41 bis''))"] a b
    by (simp add: fila_vacia_def group_cell_def)
qed

section \<open>The key stored for a row\<close>



















end
